theory Spec2Isabelle
  imports Complex_Main "HOL-Library.Sublist"
begin

section \<open>The o1 web crawler example, as a functional model\<close>

text \<open>
  The script \<^verbatim>\<open>o1_web_crawler.py\<close> asks a language model for a search phrase, asks the
  mapping service for the links of a site that match it, scrapes every link, asks the
  model to extract vendors from each page and keeps the accumulated vendors in the file
  \<^verbatim>\<open>o1_web_crawler_results.json\<close>.

  Everything the script talks to (the model, the mapping and scraping service, the
  console, the file system, the JSON codec of the standard library, the alarm signal) is
  outside the script. The model below takes their answers from a \<open>world\<close> record and
  writes down what the script does to them as a trace of events.
\<close>

subsection \<open>Python values\<close>

text \<open>
  The values \<^verbatim>\<open>json.loads\<close> can return. A float is kept only as far as the script can
  observe it (its truth value): a finite one by its exact value, and the three
  non-finite ones the decoder accepts. A dict is its items in insertion order, with
  distinct keys.
\<close>

datatype pyfloat = Finite rat | NaN | Infinity bool

datatype pyval =
    PNone
  | PBool bool
  | PInt int
  | PFloat pyfloat
  | PStr string
  | PList "pyval list"
  | PDict "(string \<times> pyval) list"

text \<open>
  The exceptions that occur, all of them subclasses of \<^verbatim>\<open>Exception\<close>.
  \<open>TimeoutError\<close> is what \<^verbatim>\<open>timeout_handler\<close> raises when the alarm goes off;
  \<open>OtherError\<close> stands for the errors of the HTTP and model clients.
\<close>

datatype exc =
    JSONDecodeError
  | TimeoutError
  | AttributeError
  | TypeError
  | KeyError
  | OSError
  | UnicodeDecodeError
  | EOFError
  | OtherError string

text \<open>\<^verbatim>\<open>bool(v)\<close>, as \<^verbatim>\<open>if all_vendors:\<close> evaluates it.\<close>

fun truthy :: "pyval \<Rightarrow> bool" where
  "truthy PNone = False"
| "truthy (PBool b) = b"
| "truthy (PInt n) = (n \<noteq> 0)"
| "truthy (PFloat (Finite q)) = (q \<noteq> 0)"
| "truthy (PFloat NaN) = True"
| "truthy (PFloat (Infinity _)) = True"
| "truthy (PStr s) = (s \<noteq> [])"
| "truthy (PList xs) = (xs \<noteq> [])"
| "truthy (PDict kvs) = (kvs \<noteq> [])"

text \<open>\<^verbatim>\<open>len(v)\<close>: defined on strings, lists and dicts, a \<^verbatim>\<open>TypeError\<close> elsewhere.\<close>

fun py_len :: "pyval \<Rightarrow> exc + nat" where
  "py_len (PStr s) = Inr (length s)"
| "py_len (PList xs) = Inr (length xs)"
| "py_len (PDict kvs) = Inr (length kvs)"
| "py_len _ = Inl TypeError"

text \<open>
  The items that iterating over \<open>v\<close> yields: the elements of a list, the characters of a
  string, the keys of a dict; a \<^verbatim>\<open>TypeError\<close> for a value that is not iterable.
\<close>

fun py_iter :: "pyval \<Rightarrow> exc + pyval list" where
  "py_iter (PList xs) = Inr xs"
| "py_iter (PStr s) = Inr (map (\<lambda>c. PStr [c]) s)"
| "py_iter (PDict kvs) = Inr (map (\<lambda>kv. PStr (fst kv)) kvs)"
| "py_iter _ = Inl TypeError"

text \<open>
  \<^verbatim>\<open>target.extend(v)\<close>: only a list has the method (\<^verbatim>\<open>AttributeError\<close> otherwise, raised
  before the argument is looked at); the items of \<open>v\<close> are appended in order.
\<close>

fun py_extend :: "pyval \<Rightarrow> pyval \<Rightarrow> exc + pyval" where
  "py_extend (PList xs) v =
     (case py_iter v of Inl e \<Rightarrow> Inl e | Inr ys \<Rightarrow> Inr (PList (xs @ ys)))"
| "py_extend _ v = Inl AttributeError"

text \<open>\<^verbatim>\<open>v[key]\<close> with a string key: a dict looks it up, every other value raises.\<close>

fun py_subscript :: "pyval \<Rightarrow> string \<Rightarrow> exc + pyval" where
  "py_subscript (PDict kvs) k =
     (case map_of kvs k of None \<Rightarrow> Inl KeyError | Some v \<Rightarrow> Inr v)"
| "py_subscript _ k = Inl TypeError"

text \<open>\<^verbatim>\<open>v.get(key, default)\<close>: a method of dicts only.\<close>

fun py_get :: "pyval \<Rightarrow> string \<Rightarrow> pyval \<Rightarrow> exc + pyval" where
  "py_get (PDict kvs) k d = Inr (case map_of kvs k of None \<Rightarrow> d | Some v \<Rightarrow> v)"
| "py_get _ k d = Inl AttributeError"

subsection \<open>Console, collaborators and the file\<close>

text \<open>The two prompts, by what the script puts into them.\<close>

datatype prompt =
    MapPrompt string
  | CheckPrompt string pyval

text \<open>One constructor for each \<^verbatim>\<open>print\<close> of the script, with the values it formats.\<close>

datatype msg =
    MsgObjective string
  | MsgInitSearch string
  | MsgAnalyzing
  | MsgSearchParam "string option"
  | MsgMapping
  | MsgMapDone
  | MsgLocated nat
  | MsgRankError exc
  | MsgStartFresh
  | MsgScrape string
  | MsgScrapeDone
  | MsgExtracted nat
  | MsgSaved
  | MsgParseError
  | MsgPageError string exc
  | MsgInitiating
  | MsgRelevantPages
  | MsgFulfilled nat
  | MsgNoVendors
  | MsgNoPages
  | MsgTimedOut

text \<open>
  What the script does to the outside, in order: a line on the console, a completion
  request, a call of \<^verbatim>\<open>map_url\<close> with the site and the search parameter, a call of
  \<^verbatim>\<open>scrape_url\<close>, the start of a save of a document (the \<^verbatim>\<open>with open(output_file, 'w')\<close>
  statement is reached), and the end of a save that wrote the document in full.
\<close>

datatype event =
    Print msg
  | ChatCall prompt
  | MapCall string "string option"
  | ScrapeCall string
  | SaveCall pyval
  | Write pyval

text \<open>
  The answers of the outside. A call either raises or returns. The calls made once per
  candidate page take the number of the loop iteration, so that the same link may be
  answered differently the second time.
  \<^item> \<open>input_url\<close>, \<open>input_objective\<close>: the two calls of \<^verbatim>\<open>input\<close>;
  \<^item> \<open>complete_map\<close>, \<open>complete_check\<close>: \<^verbatim>\<open>completion.choices[0].message.content\<close> of the
    request with the given prompt, which may be \<^verbatim>\<open>None\<close>;
  \<^item> \<open>map_url\<close>: the links for a site and a search parameter;
  \<^item> \<open>scrape_url\<close>: the scrape result for a link;
  \<^item> \<open>open_r\<close>: the exception of opening the existing output file for reading, if any;
  \<^item> \<open>decode_text\<close>: the text that reading a file with the given bytes returns, \<open>None\<close>
    where the bytes are not text in the encoding of the platform and \<^verbatim>\<open>f.read()\<close> raises
    \<^verbatim>\<open>UnicodeDecodeError\<close>;
  \<^item> \<open>open_w\<close>: the exception of opening the output file for writing, if any; the file
    is not touched then;
  \<^item> \<open>write_fail\<close>: the failure of a save after the file was opened, if any: the
    exception that \<^verbatim>\<open>json.dump\<close> or the closing of the file raises, and how many
    characters of the document are in the file then;
  \<^item> \<open>json_loads\<close>: the decoder, \<open>None\<close> where it raises \<^verbatim>\<open>JSONDecodeError\<close>;
  \<^item> \<open>json_dumps\<close>: the encoder, which writes ASCII only, so that the bytes in the file
    are the characters of its text.

  The alarm set by \<^verbatim>\<open>main\<close> interrupts whatever call is running when it goes off, and
  \<^verbatim>\<open>timeout_handler\<close> raises there: an alarm during a call shows as that call raising
  \<open>TimeoutError\<close>.
\<close>

record world =
  input_url :: "exc + string"
  input_objective :: "exc + string"
  complete_map :: "prompt \<Rightarrow> exc + string option"
  map_url :: "string \<Rightarrow> string option \<Rightarrow> exc + string list"
  scrape_url :: "nat \<Rightarrow> string \<Rightarrow> exc + pyval"
  complete_check :: "nat \<Rightarrow> prompt \<Rightarrow> exc + string option"
  open_r :: "exc option"
  decode_text :: "string \<Rightarrow> string option"
  open_w :: "nat \<Rightarrow> exc option"
  write_fail :: "nat \<Rightarrow> (exc \<times> nat) option"
  json_loads :: "string \<Rightarrow> pyval option"
  json_dumps :: "pyval \<Rightarrow> string"

text \<open>
  The state outside the script's variables: the bytes of the output file (\<open>None\<close> when
  the file does not exist) and the trace so far.
\<close>

record state =
  disk :: "string option"
  trace :: "event list"

definition emit :: "event \<Rightarrow> state \<Rightarrow> state" where
  "emit e s = s\<lparr>trace := trace s @ [e]\<rparr>"

definition say :: "msg \<Rightarrow> state \<Rightarrow> state" where
  "say m s = emit (Print m) s"

text \<open>The document that is dumped: \<^verbatim>\<open>{"vendors": all_vendors}\<close>.\<close>

definition doc :: "pyval \<Rightarrow> pyval" where
  "doc all_vendors = PDict [(''vendors'', all_vendors)]"

text \<open>
  \<^verbatim>\<open>with open(output_file, 'w') as f: json.dump({"vendors": all_vendors}, f, indent=2)\<close>.
  Opening may fail, and the file is as before. Once it is open, the file has been emptied:
  when the writing or the closing fails, the file holds the part of the document that
  was written, and only when the statement ends without an exception does it hold the
  document in full.
\<close>

definition save_results :: "world \<Rightarrow> nat \<Rightarrow> pyval \<Rightarrow> state \<Rightarrow> exc option \<times> state" where
  "save_results w i all_vendors s =
     (let s1 = emit (SaveCall (doc all_vendors)) s
      in case open_w w i of
           Some e \<Rightarrow> (Some e, s1)
         | None \<Rightarrow>
             (case write_fail w i of
                Some (e, k) \<Rightarrow>
                  (Some e, s1\<lparr>disk := Some (take k (json_dumps w (doc all_vendors)))\<rparr>)
              | None \<Rightarrow>
                  (None, emit (Write (doc all_vendors))
                           (s1\<lparr>disk := Some (json_dumps w (doc all_vendors))\<rparr>))))"

subsection \<open>find_relevant_page_via_map\<close>

text \<open>
  The body of the \<^verbatim>\<open>try\<close>: the raised exception or the returned list, and the state.
\<close>

definition rank_body :: "world \<Rightarrow> string \<Rightarrow> string \<Rightarrow> state \<Rightarrow> (exc + string list) \<times> state" where
  "rank_body w objective url s =
     (let s1 = say MsgAnalyzing (say (MsgInitSearch url) (say (MsgObjective objective) s));
          s2 = emit (ChatCall (MapPrompt objective)) s1
      in case complete_map w (MapPrompt objective) of
           Inl e \<Rightarrow> (Inl e, s2)
         | Inr map_search_parameter \<Rightarrow>
             (let s3 = say MsgMapping (say (MsgSearchParam map_search_parameter) s2);
                  s4 = emit (MapCall url map_search_parameter) s3
              in case map_url w url map_search_parameter of
                   Inl e \<Rightarrow> (Inl e, s4)
                 | Inr map_website \<Rightarrow>
                     (Inr map_website,
                      say (MsgLocated (length map_website)) (say MsgMapDone s4))))"

text \<open>\<^verbatim>\<open>except Exception as e\<close>: print the error and return \<^verbatim>\<open>None\<close>.\<close>

definition find_relevant_page_via_map ::
  "world \<Rightarrow> string \<Rightarrow> string \<Rightarrow> state \<Rightarrow> string list option \<times> state" where
  "find_relevant_page_via_map w objective url s =
     (case rank_body w objective url s of
        (Inl e, s') \<Rightarrow> (None, say (MsgRankError e) s')
      | (Inr map_website, s') \<Rightarrow> (Some map_website, s'))"

subsection \<open>find_objective_in_top_pages\<close>

text \<open>
  Loading the existing data. The file is opened only if it exists; \<^verbatim>\<open>json.load\<close> reads
  it as text and decodes the text; a text the decoder rejects is reported and the list
  stays empty; \<^verbatim>\<open>existing_data.get\<close> is called on whatever the decoder returned. An
  exception of \<^verbatim>\<open>open\<close>, of the reading or of \<^verbatim>\<open>get\<close> is not caught here.
\<close>

definition load_existing :: "world \<Rightarrow> state \<Rightarrow> (exc + pyval) \<times> state" where
  "load_existing w s =
     (case disk s of
        None \<Rightarrow> (Inr (PList []), s)
      | Some bytes \<Rightarrow>
          (case open_r w of
             Some e \<Rightarrow> (Inl e, s)
           | None \<Rightarrow>
               (case decode_text w bytes of
                  None \<Rightarrow> (Inl UnicodeDecodeError, s)
                | Some text \<Rightarrow>
                    (case json_loads w text of
                       None \<Rightarrow> (Inr (PList []), say MsgStartFresh s)
                     | Some existing_data \<Rightarrow>
                         (py_get existing_data ''vendors'' (PList []), s)))))"

text \<open>
  The two shapes that are taken over from a decoded response: a list, and a dict with
  the key \<^verbatim>\<open>'vendors'\<close>. Every other value leaves \<open>all_vendors\<close> as it is.
\<close>

fun absorb :: "pyval \<Rightarrow> pyval \<Rightarrow> exc + pyval" where
  "absorb all_vendors (PList xs) = py_extend all_vendors (PList xs)"
| "absorb all_vendors (PDict kvs) =
     (case map_of kvs ''vendors'' of
        Some v \<Rightarrow> py_extend all_vendors v
      | None \<Rightarrow> Inr all_vendors)"
| "absorb all_vendors _ = Inr all_vendors"

text \<open>
  The body of the inner \<^verbatim>\<open>try\<close>, from \<^verbatim>\<open>json.loads(result)\<close> to the message that the
  results were saved: the exception raised (if any), \<open>all_vendors\<close> and the state at that
  point. \<^verbatim>\<open>json.loads(None)\<close> is a \<^verbatim>\<open>TypeError\<close>.
\<close>

definition parse_and_save ::
  "world \<Rightarrow> nat \<Rightarrow> string option \<Rightarrow> pyval \<times> state \<Rightarrow> exc option \<times> pyval \<times> state" where
  "parse_and_save w i result st =
     (case st of (all_vendors, s) \<Rightarrow>
        (case result of
           None \<Rightarrow> (Some TypeError, all_vendors, s)
         | Some text \<Rightarrow>
             (case json_loads w text of
                None \<Rightarrow> (Some JSONDecodeError, all_vendors, s)
              | Some vendors \<Rightarrow>
                  (case absorb all_vendors vendors of
                     Inl e \<Rightarrow> (Some e, all_vendors, s)
                   | Inr all_vendors' \<Rightarrow>
                       (case py_len vendors of
                          Inl e \<Rightarrow> (Some e, all_vendors', s)
                        | Inr n \<Rightarrow>
                            (case save_results w i all_vendors' (say (MsgExtracted n) s) of
                               (Some e, s1) \<Rightarrow> (Some e, all_vendors', s1)
                             | (None, s1) \<Rightarrow> (None, all_vendors', say MsgSaved s1)))))))"

text \<open>The inner \<^verbatim>\<open>except json.JSONDecodeError\<close>: report it and go on; anything else passes.\<close>

definition extract_step ::
  "world \<Rightarrow> nat \<Rightarrow> string option \<Rightarrow> pyval \<times> state \<Rightarrow> exc option \<times> pyval \<times> state" where
  "extract_step w i result st =
     (case parse_and_save w i result st of
        (Some JSONDecodeError, all_vendors, s) \<Rightarrow> (None, all_vendors, say MsgParseError s)
      | r \<Rightarrow> r)"

text \<open>The body of the outer \<^verbatim>\<open>try\<close> for one link.\<close>

definition page_body ::
  "world \<Rightarrow> string \<Rightarrow> nat \<Rightarrow> string \<Rightarrow> pyval \<times> state \<Rightarrow> exc option \<times> pyval \<times> state" where
  "page_body w objective i link st =
     (case st of (all_vendors, s) \<Rightarrow>
        (let s1 = emit (ScrapeCall link) (say (MsgScrape link) s)
         in case scrape_url w i link of
              Inl e \<Rightarrow> (Some e, all_vendors, s1)
            | Inr scrape_result \<Rightarrow>
                (let s2 = say MsgScrapeDone s1
                 in case py_subscript scrape_result ''markdown'' of
                      Inl e \<Rightarrow> (Some e, all_vendors, s2)
                    | Inr markdown \<Rightarrow>
                        (let s3 = emit (ChatCall (CheckPrompt objective markdown)) s2
                         in case complete_check w i (CheckPrompt objective markdown) of
                              Inl e \<Rightarrow> (Some e, all_vendors, s3)
                            | Inr result \<Rightarrow> extract_step w i result (all_vendors, s3)))))"

text \<open>
  One iteration of the loop: the outer \<^verbatim>\<open>except Exception as e\<close> prints whatever the
  body raised, and the loop goes to the next link.
\<close>

definition process_page ::
  "world \<Rightarrow> string \<Rightarrow> nat \<Rightarrow> string \<Rightarrow> pyval \<times> state \<Rightarrow> pyval \<times> state" where
  "process_page w objective i link st =
     (case page_body w objective i link st of
        (None, all_vendors, s) \<Rightarrow> (all_vendors, s)
      | (Some e, all_vendors, s) \<Rightarrow> (all_vendors, say (MsgPageError link e) s))"

text \<open>\<^verbatim>\<open>for link in map_website\<close>, from iteration number \<open>i\<close> on.\<close>

fun pages :: "world \<Rightarrow> string \<Rightarrow> nat \<Rightarrow> string list \<Rightarrow> pyval \<times> state \<Rightarrow> pyval \<times> state" where
  "pages w objective i [] st = st"
| "pages w objective i (link # links) st =
     pages w objective (Suc i) links (process_page w objective i link st)"

definition find_objective_in_top_pages ::
  "world \<Rightarrow> string list \<Rightarrow> string \<Rightarrow> state \<Rightarrow> (exc + pyval) \<times> state" where
  "find_objective_in_top_pages w map_website objective s =
     (case load_existing w s of
        (Inl e, s') \<Rightarrow> (Inl e, s')
      | (Inr all_vendors, s') \<Rightarrow>
          (case pages w objective 0 map_website (all_vendors, s') of
             (all_vendors', s'') \<Rightarrow> (Inr all_vendors', s'')))"

subsection \<open>main\<close>

text \<open>
  How a run ends: one of the three final messages of \<^verbatim>\<open>main\<close> (the vendors were
  reported, no relevant pages, timed out), or an exception that leaves \<^verbatim>\<open>main\<close>.
\<close>

datatype terminal =
    Done pyval
  | Failed_no_pages
  | Failed_timeout
  | Uncaught exc

text \<open>The report after the loop; \<^verbatim>\<open>len(all_vendors)\<close> is evaluated only for a true value.\<close>

definition report :: "pyval \<Rightarrow> state \<Rightarrow> (exc + pyval) \<times> state" where
  "report all_vendors s =
     (if truthy all_vendors then
        (case py_len all_vendors of
           Inl e \<Rightarrow> (Inl e, s)
         | Inr n \<Rightarrow> (Inr all_vendors, say (MsgFulfilled n) s))
      else (Inr all_vendors, say MsgNoVendors s))"

text \<open>
  The body of the \<^verbatim>\<open>try\<close> of \<^verbatim>\<open>main\<close>. \<^verbatim>\<open>if map_website:\<close> is false for \<^verbatim>\<open>None\<close> and for
  the empty list. \<open>Inr None\<close> is the branch that found no relevant pages.
\<close>

definition main_body :: "world \<Rightarrow> state \<Rightarrow> (exc + pyval option) \<times> state" where
  "main_body w s =
     (case input_url w of
        Inl e \<Rightarrow> (Inl e, s)
      | Inr url \<Rightarrow>
          (case input_objective w of
             Inl e \<Rightarrow> (Inl e, s)
           | Inr objective \<Rightarrow>
               (case find_relevant_page_via_map w objective url (say MsgInitiating s) of
                  (Some (link # links), s1) \<Rightarrow>
                    (case find_objective_in_top_pages w (link # links) objective
                            (say MsgRelevantPages s1) of
                       (Inl e, s2) \<Rightarrow> (Inl e, s2)
                     | (Inr all_vendors, s2) \<Rightarrow>
                         (case report all_vendors s2 of
                            (Inl e, s3) \<Rightarrow> (Inl e, s3)
                          | (Inr v, s3) \<Rightarrow> (Inr (Some v), s3)))
                | (_, s1) \<Rightarrow> (Inr None, say MsgNoPages s1))))"

text \<open>\<^verbatim>\<open>except TimeoutError\<close>: the only exception \<^verbatim>\<open>main\<close> handles.\<close>

definition main :: "world \<Rightarrow> state \<Rightarrow> terminal \<times> state" where
  "main w s =
     (case main_body w s of
        (Inl TimeoutError, s') \<Rightarrow> (Failed_timeout, say MsgTimedOut s')
      | (Inl e, s') \<Rightarrow> (Uncaught e, s')
      | (Inr None, s') \<Rightarrow> (Failed_no_pages, s')
      | (Inr (Some all_vendors), s') \<Rightarrow> (Done all_vendors, s'))"

subsection \<open>Reading the trace\<close>

text \<open>The documents written in full into the output file, oldest first.\<close>

fun writes :: "event list \<Rightarrow> pyval list" where
  "writes [] = []"
| "writes (Write d # es) = d # writes es"
| "writes (_ # es) = writes es"

text \<open>The documents whose save was started, oldest first.\<close>

fun save_calls :: "event list \<Rightarrow> pyval list" where
  "save_calls [] = []"
| "save_calls (SaveCall d # es) = d # save_calls es"
| "save_calls (_ # es) = save_calls es"

text \<open>The links handed to \<^verbatim>\<open>scrape_url\<close>, in the order of the calls.\<close>

fun scrapes :: "event list \<Rightarrow> string list" where
  "scrapes [] = []"
| "scrapes (ScrapeCall link # es) = link # scrapes es"
| "scrapes (_ # es) = scrapes es"

text \<open>The site and the search parameter of each call of \<^verbatim>\<open>map_url\<close>.\<close>

fun map_calls :: "event list \<Rightarrow> (string \<times> string option) list" where
  "map_calls [] = []"
| "map_calls (MapCall url q # es) = (url, q) # map_calls es"
| "map_calls (_ # es) = map_calls es"

text \<open>
  The calls that extract records from a page: the scrape and the completion request
  with the extraction prompt.
\<close>

fun is_extractor_call :: "event \<Rightarrow> bool" where
  "is_extractor_call (ScrapeCall link) = True"
| "is_extractor_call (ChatCall (CheckPrompt objective markdown)) = True"
| "is_extractor_call _ = False"

fun is_dict :: "pyval \<Rightarrow> bool" where
  "is_dict (PDict kvs) = True"
| "is_dict _ = False"

text \<open>
  What one step did about the output file, read off the state \<open>s\<close> before it and its
  result \<open>r\<close>: it started a save of the list it ended with (\<open>invoked\<close>); it wrote that list
  in full (\<open>saved\<close>); it wrote nothing and left the file alone (\<open>untouched\<close>).
\<close>

definition invoked :: "state \<Rightarrow> pyval \<times> state \<Rightarrow> bool" where
  "invoked s r = (save_calls (trace (snd r)) = save_calls (trace s) @ [doc (fst r)])"

definition saved :: "world \<Rightarrow> state \<Rightarrow> pyval \<times> state \<Rightarrow> bool" where
  "saved w s r = (writes (trace (snd r)) = writes (trace s) @ [doc (fst r)] \<and>
     disk (snd r) = Some (json_dumps w (doc (fst r))))"

definition untouched :: "state \<Rightarrow> pyval \<times> state \<Rightarrow> bool" where
  "untouched s r = (writes (trace (snd r)) = writes (trace s) \<and> disk (snd r) = disk s)"

subsection \<open>The wording of the specification\<close>

text \<open>
  The specification calls the search phrase the model's response "trimmed": the text
  without the white space at its two ends, as \<^verbatim>\<open>str.strip()\<close> returns it (here for the
  white space characters of ASCII).
\<close>

definition is_space :: "char \<Rightarrow> bool" where
  "is_space c = (c \<in> set [CHR '' '', CHR 0x09, CHR 0x0A, CHR 0x0B, CHR 0x0C, CHR 0x0D])"

definition trimmed :: "string \<Rightarrow> string" where
  "trimmed t = rev (dropWhile is_space (rev (dropWhile is_space t)))"

text \<open>
  The record sequence of a response, in the words of the specification: a top-level
  array is the sequence; of an object with the key \<^verbatim>\<open>vendors\<close> the value of that key,
  taken as a sequence (the items that iterating over it yields, none when it cannot be
  iterated); any other shape, and a text that does not parse (\<open>None\<close>), is zero records.
\<close>

fun response_records :: "pyval option \<Rightarrow> pyval list" where
  "response_records (Some (PList xs)) = xs"
| "response_records (Some (PDict kvs)) =
     (case map_of kvs ''vendors'' of
        Some v \<Rightarrow> (case py_iter v of Inr ys \<Rightarrow> ys | Inl e \<Rightarrow> [])
      | None \<Rightarrow> [])"
| "response_records _ = []"

subsection \<open>A concrete run\<close>

text \<open>
  A world to run the script in: the model answers the ranking prompt with a phrase that
  starts with a blank, the site has three pages, the fetch of the second page fails, the
  first page yields one vendor and the third page two, and every save goes through. The
  decoder and the encoder are given on the few texts that occur.
\<close>

definition vendor :: "string \<Rightarrow> pyval" where
  "vendor name = PDict [(''name'', PStr name)]"

definition demo_loads :: "string \<Rightarrow> pyval option" where
  \<open>demo_loads text =
     (if text = ''[{"name": "New"}]'' then Some (PList [vendor ''New''])
      else if text = ''{"vendors": [{"name": "A"}, {"name": "B"}]}''
        then Some (PDict [(''vendors'', PList [vendor ''A'', vendor ''B''])])
      else if text = ''{"vendors": [{"name": "Existing"}]}''
        then Some (PDict [(''vendors'', PList [vendor ''Existing''])])
      else if text = ''[]'' then Some (PList [])
      else if text = ''[1, 2]'' then Some (PList [PInt 1, PInt 2])
      else None)\<close>

definition demo_dumps :: "pyval \<Rightarrow> string" where
  \<open>demo_dumps d =
     (if d = doc (PList []) then ''{"vendors": []}''
      else if d = doc (PList [vendor ''New''])
        then ''{"vendors": [{"name": "New"}]}''
      else if d = doc (PList [vendor ''Existing'', vendor ''New''])
        then ''{"vendors": [{"name": "Existing"}, {"name": "New"}]}''
      else if d = doc (PList [vendor ''New'', vendor ''A'', vendor ''B''])
        then ''{"vendors": [{"name": "New"}, {"name": "A"}, {"name": "B"}]}''
      else ''{"vendors": [...]}'')\<close>

text \<open>The two bytes \<open>FF FE\<close> are not text in UTF-8; every other file is read as it is.\<close>

definition demo_decode :: "string \<Rightarrow> string option" where
  "demo_decode bytes = (if bytes = [CHR 0xFF, CHR 0xFE] then None else Some bytes)"

definition demo_world :: world where
  \<open>demo_world =
     \<lparr>input_url = Inr ''https://shop.test'',
      input_objective = Inr ''find vendors'',
      complete_map = (\<lambda>p. Inr (Some '' pricing'')),
      map_url = (\<lambda>url q. Inr [''https://shop.test/a'', ''https://shop.test/b'',
                                 ''https://shop.test/c'']),
      scrape_url = (\<lambda>i link. if i = 1 then Inl (OtherError ''fetch failed'')
                               else Inr (PDict [(''markdown'', PStr ''# Vendors'')])),
      complete_check = (\<lambda>i p. Inr (Some (if i = 0 then ''[{"name": "New"}]''
                               else ''{"vendors": [{"name": "A"}, {"name": "B"}]}''))),
      open_r = None,
      decode_text = demo_decode,
      open_w = (\<lambda>i. None),
      write_fail = (\<lambda>i. None),
      json_loads = demo_loads,
      json_dumps = demo_dumps\<rparr>\<close>

text \<open>The state before a run, with the given text in the output file.\<close>

definition start :: "string option \<Rightarrow> state" where
  "start file = \<lparr>disk = file, trace = []\<rparr>"

section \<open>Properties\<close>

subsection \<open>The state and the trace\<close>

lemma disk_emit [simp]: "disk (emit e s) = disk s"
  by (simp add: emit_def)

lemma trace_emit [simp]: "trace (emit e s) = trace s @ [e]"
  by (simp add: emit_def)

lemma disk_say [simp]: "disk (say m s) = disk s"
  by (simp add: say_def)

lemma trace_say [simp]: "trace (say m s) = trace s @ [Print m]"
  by (simp add: say_def)

lemma writes_append [simp]: "writes (t @ u) = writes t @ writes u"
  by (induction t rule: writes.induct) simp_all

lemma save_calls_append [simp]: "save_calls (t @ u) = save_calls t @ save_calls u"
  by (induction t rule: save_calls.induct) simp_all

lemma scrapes_append [simp]: "scrapes (t @ u) = scrapes t @ scrapes u"
  by (induction t rule: scrapes.induct) simp_all

lemma map_calls_append [simp]: "map_calls (t @ u) = map_calls t @ map_calls u"
  by (induction t rule: map_calls.induct) simp_all

subsection \<open>Ranking\<close>

text \<open>
  Claim C8. \<^verbatim>\<open>find_relevant_page_via_map\<close> returns \<^verbatim>\<open>None\<close> whenever the completion
  request or the call of \<^verbatim>\<open>map_url\<close> raises, and the last thing it does before is to print
  the error. The function has no other way out: its result is a value, and every
  exception of its body is turned into \<^verbatim>\<open>None\<close>.
\<close>

theorem rank_failure_returns_None:
  assumes "complete_map w (MapPrompt objective) = Inl e \<or>
     (\<exists>q. complete_map w (MapPrompt objective) = Inr q \<and> map_url w url q = Inl e)"
  shows "fst (find_relevant_page_via_map w objective url s) = None \<and>
         last (trace (snd (find_relevant_page_via_map w objective url s))) = Print (MsgRankError e)"
  using assms
  by (auto simp: find_relevant_page_via_map_def rank_body_def Let_def)

text \<open>The mapping service answers with an error: the result is \<^verbatim>\<open>None\<close>.\<close>

theorem rank_failure_returns_None_witness:
  "complete_map (demo_world\<lparr>map_url := (\<lambda>url q. Inl (OtherError ''503''))\<rparr>) (MapPrompt ''find vendors'')
     = Inr (Some '' pricing'') \<and>
   fst (find_relevant_page_via_map (demo_world\<lparr>map_url := (\<lambda>url q. Inl (OtherError ''503''))\<rparr>)
          ''find vendors'' ''https://shop.test'' (start None)) = None \<and>
   last (trace (snd (find_relevant_page_via_map (demo_world\<lparr>map_url := (\<lambda>url q. Inl (OtherError ''503''))\<rparr>)
          ''find vendors'' ''https://shop.test'' (start None)))) = Print (MsgRankError (OtherError ''503''))"
  using rank_failure_returns_None [of "demo_world\<lparr>map_url := (\<lambda>url q. Inl (OtherError ''503''))\<rparr>"
      "''find vendors''" "OtherError ''503''" "''https://shop.test''" "start None"]
  by (simp add: demo_world_def)

text \<open>
  Claim C7, as amended. The search parameter handed to \<^verbatim>\<open>map_url\<close> is the content of the
  model's response as it came, with nothing trimmed, and when \<^verbatim>\<open>map_url\<close> returns, its list
  is returned as it is.
\<close>

theorem search_phrase_is_raw_response:
  assumes "complete_map w (MapPrompt objective) = Inr q"
  shows "map_calls (trace (snd (find_relevant_page_via_map w objective url s)))
           = map_calls (trace s) @ [(url, q)] \<and>
         fst (find_relevant_page_via_map w objective url s)
           = (case map_url w url q of Inl e \<Rightarrow> None | Inr map_website \<Rightarrow> Some map_website)"
  using assms
  by (simp add: find_relevant_page_via_map_def rank_body_def Let_def split: sum.splits)

theorem search_phrase_is_raw_response_witness:
  "complete_map demo_world (MapPrompt ''find vendors'') = Inr (Some '' pricing'') \<and>
   map_calls (trace (snd (find_relevant_page_via_map demo_world ''find vendors'' ''https://shop.test'' (start None))))
     = [(''https://shop.test'', Some '' pricing'')] \<and>
   fst (find_relevant_page_via_map demo_world ''find vendors'' ''https://shop.test'' (start None))
     = Some [''https://shop.test/a'', ''https://shop.test/b'', ''https://shop.test/c'']"
  using search_phrase_is_raw_response [of demo_world "''find vendors''" "Some '' pricing''"
      "''https://shop.test''" "start None"]
  by (simp add: demo_world_def start_def)

text \<open>
  Claim C7 as stated fails: the response \<^verbatim>\<open>" pricing"\<close> is sent with its leading blank, not
  as the trimmed \<^verbatim>\<open>"pricing"\<close>.
\<close>

theorem search_phrase_trimmed_counterexample:
  "map_calls (trace (snd (find_relevant_page_via_map demo_world ''find vendors'' ''https://shop.test'' (start None))))
     = [(''https://shop.test'', Some '' pricing'')] \<and>
   trimmed '' pricing'' = ''pricing'' \<and>
   map_calls (trace (snd (find_relevant_page_via_map demo_world ''find vendors'' ''https://shop.test'' (start None))))
     \<noteq> [(''https://shop.test'', Some (trimmed '' pricing''))]"
  by (simp add: find_relevant_page_via_map_def rank_body_def Let_def demo_world_def start_def
      trimmed_def is_space_def)

subsection \<open>Loading\<close>

text \<open>
  Claim C6, as amended. Without an output file the loaded list is empty and nothing is
  printed. With a file that can be opened and read as text, and whose text the decoder
  rejects, the warning is printed, the loaded list is empty and the file keeps its
  content. A file that cannot be opened, or whose bytes cannot be read as text, makes
  the loading raise, with nothing printed and the file as it was.
\<close>

theorem load_absent_or_unparsable:
  "(disk s = None \<longrightarrow> load_existing w s = (Inr (PList []), s)) \<and>
   (disk s = Some bytes \<and> open_r w = None \<and> decode_text w bytes = Some content \<and>
    json_loads w content = None \<longrightarrow>
      load_existing w s = (Inr (PList []), say MsgStartFresh s) \<and>
      disk (snd (load_existing w s)) = Some bytes) \<and>
   (disk s = Some bytes \<and> open_r w = Some e \<longrightarrow> load_existing w s = (Inl e, s)) \<and>
   (disk s = Some bytes \<and> open_r w = None \<and> decode_text w bytes = None \<longrightarrow>
      load_existing w s = (Inl UnicodeDecodeError, s))"
  by (simp add: load_existing_def)

theorem load_absent_or_unparsable_witness:
  "disk (start None) = None \<and>
   load_existing demo_world (start None) = (Inr (PList []), start None) \<and>
   disk (start (Some ''{'')) = Some ''{'' \<and>
   open_r demo_world = None \<and>
   decode_text demo_world ''{'' = Some ''{'' \<and>
   json_loads demo_world ''{'' = None \<and>
   load_existing demo_world (start (Some ''{''))
     = (Inr (PList []), say MsgStartFresh (start (Some ''{''))) \<and>
   disk (snd (load_existing demo_world (start (Some ''{'')))) = Some ''{'' \<and>
   open_r (demo_world\<lparr>open_r := Some OSError\<rparr>) = Some OSError \<and>
   load_existing (demo_world\<lparr>open_r := Some OSError\<rparr>) (start (Some ''{''))
     = (Inl OSError, start (Some ''{'')) \<and>
   decode_text demo_world [CHR 0xFF, CHR 0xFE] = None \<and>
   load_existing demo_world (start (Some [CHR 0xFF, CHR 0xFE]))
     = (Inl UnicodeDecodeError, start (Some [CHR 0xFF, CHR 0xFE]))"
  using load_absent_or_unparsable [where s = "start None" and w = demo_world]
    load_absent_or_unparsable [where s = "start (Some ''{'')" and bytes = "''{''"
      and content = "''{''" and w = demo_world]
    load_absent_or_unparsable [where s = "start (Some ''{'')" and bytes = "''{''"
      and w = "demo_world\<lparr>open_r := Some OSError\<rparr>" and e = OSError]
    load_absent_or_unparsable [where s = "start (Some [CHR 0xFF, CHR 0xFE])"
      and bytes = "[CHR 0xFF, CHR 0xFE]" and w = demo_world]
  by (simp add: start_def demo_world_def demo_loads_def demo_decode_def)

text \<open>
  Claim C6 as stated fails: a file with the bytes \<open>FF FE\<close> is present and is not valid
  JSON, but reading it raises \<^verbatim>\<open>UnicodeDecodeError\<close>, which the handler for
  \<^verbatim>\<open>json.JSONDecodeError\<close> does not take: the loading returns no list and prints no
  warning, and the run ends with that exception.
\<close>

theorem load_undecodable_counterexample:
  "disk (start (Some [CHR 0xFF, CHR 0xFE])) = Some [CHR 0xFF, CHR 0xFE] \<and>
   decode_text demo_world [CHR 0xFF, CHR 0xFE] = None \<and>
   load_existing demo_world (start (Some [CHR 0xFF, CHR 0xFE]))
     = (Inl UnicodeDecodeError, start (Some [CHR 0xFF, CHR 0xFE])) \<and>
   fst (load_existing demo_world (start (Some [CHR 0xFF, CHR 0xFE]))) \<noteq> Inr (PList []) \<and>
   fst (main demo_world (start (Some [CHR 0xFF, CHR 0xFE]))) = Uncaught UnicodeDecodeError \<and>
   Print MsgStartFresh \<notin> set (trace (snd (main demo_world (start (Some [CHR 0xFF, CHR 0xFE])))))"
  by (simp add: main_def main_body_def find_relevant_page_via_map_def rank_body_def Let_def
      find_objective_in_top_pages_def load_existing_def demo_world_def demo_decode_def start_def)

lemma say_neq: "say m s \<noteq> s"
proof
  assume "say m s = s"
  then have "trace (say m s) = trace s" by simp
  then show False by simp
qed

lemma py_get_not_dict: "\<not> is_dict v \<Longrightarrow> py_get v k d = Inl AttributeError"
  by (cases v) simp_all

text \<open>
  Claim C10. When the output file holds valid JSON that is not an object,
  \<^verbatim>\<open>existing_data.get\<close> raises \<^verbatim>\<open>AttributeError\<close>. Nothing catches it:
  \<^verbatim>\<open>find_objective_in_top_pages\<close> raises before it looks at a page, and a run that had
  found candidate pages ends with that exception, with no page scraped and the file as it
  was. The fall-back to an empty list (the state after the \<open>MsgStartFresh\<close> warning) is
  reached exactly when the file exists, can be read and does not parse.
\<close>

theorem load_non_object_raises:
  assumes "disk s = Some bytes" and "open_r w = None"
    and "decode_text w bytes = Some content"
    and "json_loads w content = Some v" and "\<not> is_dict v"
  shows "load_existing w s = (Inl AttributeError, s) \<and>
         find_objective_in_top_pages w map_website objective s = (Inl AttributeError, s) \<and>
         (input_url w = Inr url \<and> input_objective w = Inr objective \<and>
          complete_map w (MapPrompt objective) = Inr q \<and>
          map_url w url q = Inr (link # links) \<longrightarrow>
            fst (main w s) = Uncaught AttributeError \<and>
            scrapes (trace (snd (main w s))) = scrapes (trace s) \<and>
            disk (snd (main w s)) = Some bytes) \<and>
         (\<forall>s' w'. (snd (load_existing w' s') = say MsgStartFresh s') =
            (\<exists>bytes' content'. disk s' = Some bytes' \<and> open_r w' = None \<and>
               decode_text w' bytes' = Some content' \<and> json_loads w' content' = None))"
proof -
  have l: "load_existing w s = (Inl AttributeError, s)"
    using assms by (simp add: load_existing_def py_get_not_dict)
  have f: "find_objective_in_top_pages w map_website objective s = (Inl AttributeError, s)" for map_website
    using l by (simp add: find_objective_in_top_pages_def)
  have m: "fst (main w s) = Uncaught AttributeError \<and>
      scrapes (trace (snd (main w s))) = scrapes (trace s) \<and>
      disk (snd (main w s)) = Some bytes"
    if "input_url w = Inr url" "input_objective w = Inr objective"
      "complete_map w (MapPrompt objective) = Inr q" "map_url w url q = Inr (link # links)"
    using that assms
    by (simp add: main_def main_body_def find_relevant_page_via_map_def rank_body_def Let_def
        find_objective_in_top_pages_def load_existing_def py_get_not_dict)
  have g: "(snd (load_existing w' s') = say MsgStartFresh s') =
      (\<exists>bytes' content'. disk s' = Some bytes' \<and> open_r w' = None \<and>
               decode_text w' bytes' = Some content' \<and> json_loads w' content' = None)" for s' w'
    using say_neq [of MsgStartFresh s', symmetric]
    by (auto simp: load_existing_def split: option.splits)
  show ?thesis using l f m g by blast
qed

theorem load_non_object_raises_witness:
  "disk (start (Some ''[1, 2]'')) = Some ''[1, 2]'' \<and> open_r demo_world = None \<and>
   decode_text demo_world ''[1, 2]'' = Some ''[1, 2]'' \<and>
   json_loads demo_world ''[1, 2]'' = Some (PList [PInt 1, PInt 2]) \<and>
   \<not> is_dict (PList [PInt 1, PInt 2]) \<and>
   input_url demo_world = Inr ''https://shop.test'' \<and>
   input_objective demo_world = Inr ''find vendors'' \<and>
   complete_map demo_world (MapPrompt ''find vendors'') = Inr (Some '' pricing'') \<and>
   map_url demo_world ''https://shop.test'' (Some '' pricing'')
     = Inr [''https://shop.test/a'', ''https://shop.test/b'', ''https://shop.test/c''] \<and>
   load_existing demo_world (start (Some ''[1, 2]'')) = (Inl AttributeError, start (Some ''[1, 2]'')) \<and>
   fst (main demo_world (start (Some ''[1, 2]''))) = Uncaught AttributeError \<and>
   scrapes (trace (snd (main demo_world (start (Some ''[1, 2]''))))) = [] \<and>
   disk (snd (main demo_world (start (Some ''[1, 2]'')))) = Some ''[1, 2]''"
  using load_non_object_raises [where s = "start (Some ''[1, 2]'')" and bytes = "''[1, 2]''"
      and content = "''[1, 2]''"
      and w = demo_world and v = "PList [PInt 1, PInt 2]" and url = "''https://shop.test''"
      and objective = "''find vendors''" and q = "Some '' pricing''"
      and link = "''https://shop.test/a''" and links = "[''https://shop.test/b'', ''https://shop.test/c'']"]
  by (simp add: start_def demo_world_def demo_loads_def demo_decode_def)

subsection \<open>No candidate pages\<close>

text \<open>
  Claim C4. When \<^verbatim>\<open>map_url\<close> returns the empty list, the ranking returns that empty list
  (and not \<^verbatim>\<open>None\<close>, the result of a failed ranking), \<^verbatim>\<open>main\<close> ends with the message that
  no relevant pages were found, no page is scraped, no extraction prompt is sent, nothing
  is written and the output file is as before. The existing results are not even loaded
  on this path, so there is no list in memory that could change.
\<close>

theorem empty_ranking_ends_run:
  assumes "input_url w = Inr url" and "input_objective w = Inr objective"
    and "complete_map w (MapPrompt objective) = Inr q" and "map_url w url q = Inr []"
  shows "fst (find_relevant_page_via_map w objective url (say MsgInitiating s)) = Some [] \<and>
         fst (find_relevant_page_via_map w objective url (say MsgInitiating s)) \<noteq> None \<and>
         fst (main w s) = Failed_no_pages \<and>
         filter is_extractor_call (trace (snd (main w s))) = filter is_extractor_call (trace s) \<and>
         writes (trace (snd (main w s))) = writes (trace s) \<and>
         disk (snd (main w s)) = disk s"
  using assms
  by (simp add: main_def main_body_def find_relevant_page_via_map_def rank_body_def Let_def)

theorem empty_ranking_ends_run_witness:
  "input_url (demo_world\<lparr>map_url := (\<lambda>url q. Inr [])\<rparr>) = Inr ''https://shop.test'' \<and>
   input_objective (demo_world\<lparr>map_url := (\<lambda>url q. Inr [])\<rparr>) = Inr ''find vendors'' \<and>
   complete_map (demo_world\<lparr>map_url := (\<lambda>url q. Inr [])\<rparr>) (MapPrompt ''find vendors'')
     = Inr (Some '' pricing'') \<and>
   map_url (demo_world\<lparr>map_url := (\<lambda>url q. Inr [])\<rparr>) ''https://shop.test'' (Some '' pricing'') = Inr [] \<and>
   fst (main (demo_world\<lparr>map_url := (\<lambda>url q. Inr [])\<rparr>) (start (Some ''[]''))) = Failed_no_pages \<and>
   filter is_extractor_call (trace (snd (main (demo_world\<lparr>map_url := (\<lambda>url q. Inr [])\<rparr>) (start (Some ''[]''))))) = [] \<and>
   writes (trace (snd (main (demo_world\<lparr>map_url := (\<lambda>url q. Inr [])\<rparr>) (start (Some ''[]''))))) = [] \<and>
   disk (snd (main (demo_world\<lparr>map_url := (\<lambda>url q. Inr [])\<rparr>) (start (Some ''[]'')))) = Some ''[]''"
  using empty_ranking_ends_run [where w = "demo_world\<lparr>map_url := (\<lambda>url q. Inr [])\<rparr>"
      and url = "''https://shop.test''" and objective = "''find vendors''"
      and q = "Some '' pricing''" and s = "start (Some ''[]'')"]
  by (simp add: start_def demo_world_def)

subsection \<open>One page\<close>

lemma absorb_records:
  "absorb (PList xs) v = Inr av' \<Longrightarrow> av' = PList (xs @ response_records (Some v))"
  by (cases v) (auto split: option.splits sum.splits)

lemma absorb_raises:
  "absorb (PList xs) v = Inl e \<Longrightarrow> response_records (Some v) = []"
  by (cases v) (auto split: option.splits sum.splits)

lemma parse_and_save_list_part:
  "fst (snd (parse_and_save w i result (av, s)))
     = (case result of
          None \<Rightarrow> av
        | Some text \<Rightarrow>
            (case json_loads w text of
               None \<Rightarrow> av
             | Some vendors \<Rightarrow> (case absorb av vendors of Inl e \<Rightarrow> av | Inr av' \<Rightarrow> av')))"
  by (simp add: parse_and_save_def split: option.splits sum.splits prod.splits)

lemma parse_and_save_vendors:
  "fst (snd (parse_and_save w i (Some content) (PList xs, s)))
     = PList (xs @ response_records (json_loads w content))"
  by (auto simp: parse_and_save_list_part dest: absorb_records absorb_raises
      split: option.splits sum.splits)

lemma extract_step_vendors:
  "fst (snd (extract_step w i result st)) = fst (snd (parse_and_save w i result st))"
  by (simp add: extract_step_def split: prod.splits option.splits exc.splits)

lemma process_page_vendors:
  "fst (process_page w objective i link st) = fst (snd (page_body w objective i link st))"
  by (auto simp: process_page_def split: prod.splits option.splits)

lemma save_results_scrapes:
  "save_results w i av s = (x, s') \<Longrightarrow> scrapes (trace s') = scrapes (trace s)"
  by (auto simp: save_results_def Let_def split: option.splits prod.splits)

lemma parse_and_save_scrapes:
  "parse_and_save w i result (av, s) = (x, av', s') \<Longrightarrow> scrapes (trace s') = scrapes (trace s)"
  by (auto simp: parse_and_save_def dest: save_results_scrapes
      split: option.splits sum.splits prod.splits)

lemma extract_step_scrapes:
  "extract_step w i result (av, s) = (x, av', s') \<Longrightarrow> scrapes (trace s') = scrapes (trace s)"
  by (auto simp: extract_step_def dest: parse_and_save_scrapes
      split: prod.splits option.splits exc.splits)

lemma page_body_scrapes:
  "page_body w objective i link (av, s) = (x, av', s') \<Longrightarrow>
     scrapes (trace s') = scrapes (trace s) @ [link]"
  by (auto simp: page_body_def Let_def dest: extract_step_scrapes split: sum.splits)

lemma process_page_scrapes:
  "scrapes (trace (snd (process_page w objective i link st))) = scrapes (trace (snd st)) @ [link]"
  by (cases st)
    (auto simp: process_page_def dest: page_body_scrapes split: prod.splits option.splits)

lemma pages_scrapes:
  "scrapes (trace (snd (pages w objective i links st))) = scrapes (trace (snd st)) @ links"
  by (induction links arbitrary: i st) (simp_all add: process_page_scrapes)

text \<open>
  Claim C2. For a page that was fetched and for which the model answered with a text, and
  with the list \<open>xs\<close> accumulated so far, the page leaves the list \<open>xs\<close> followed by the
  records of the response in their order: the elements of a top-level array, the value of
  the key \<^verbatim>\<open>vendors\<close> of a top-level object, and nothing for any other shape and for a
  text that does not parse. Whatever the response is, the loop goes on to the remaining
  links.
\<close>

theorem response_shapes:
  assumes "scrape_url w i link = Inr page"
    and "py_subscript page ''markdown'' = Inr markdown"
    and "complete_check w i (CheckPrompt objective markdown) = Inr (Some content)"
  shows "fst (process_page w objective i link (PList xs, s))
           = PList (xs @ response_records (json_loads w content)) \<and>
         scrapes (trace (snd (pages w objective i (link # links) (PList xs, s))))
           = scrapes (trace s) @ link # links"
proof -
  have "fst (snd (page_body w objective i link (PList xs, s)))
      = PList (xs @ response_records (json_loads w content))"
    using assms by (simp add: page_body_def Let_def extract_step_vendors parse_and_save_vendors)
  then show ?thesis
    using pages_scrapes [of w objective i "link # links" "(PList xs, s)"]
    by (simp add: process_page_vendors)
qed

text \<open>The first page of the concrete run answers with an array, the third with an object.\<close>

theorem response_shapes_witness:
  \<open>scrape_url demo_world 0 ''https://shop.test/a'' = Inr (PDict [(''markdown'', PStr ''# Vendors'')]) \<and>
   py_subscript (PDict [(''markdown'', PStr ''# Vendors'')]) ''markdown'' = Inr (PStr ''# Vendors'') \<and>
   complete_check demo_world 0 (CheckPrompt ''find vendors'' (PStr ''# Vendors''))
     = Inr (Some ''[{"name": "New"}]'') \<and>
   complete_check demo_world 2 (CheckPrompt ''find vendors'' (PStr ''# Vendors''))
     = Inr (Some ''{"vendors": [{"name": "A"}, {"name": "B"}]}'') \<and>
   fst (process_page demo_world ''find vendors'' 0 ''https://shop.test/a'' (PList [], start None))
     = PList [vendor ''New''] \<and>
   fst (process_page demo_world ''find vendors'' 2 ''https://shop.test/c'' (PList [vendor ''New''], start None))
     = PList [vendor ''New'', vendor ''A'', vendor ''B'']\<close>
proof -
  have a: "scrape_url demo_world i link = Inr (PDict [(''markdown'', PStr ''# Vendors'')])"
    if "i \<noteq> 1" for i link
    using that by (simp add: demo_world_def)
  have b: "py_subscript (PDict [(''markdown'', PStr ''# Vendors'')]) ''markdown'' = Inr (PStr ''# Vendors'')"
    by simp
  have c0: \<open>complete_check demo_world 0 (CheckPrompt ''find vendors'' (PStr ''# Vendors''))
     = Inr (Some ''[{"name": "New"}]'')\<close>
    by (simp add: demo_world_def)
  have c2: \<open>complete_check demo_world 2 (CheckPrompt ''find vendors'' (PStr ''# Vendors''))
     = Inr (Some ''{"vendors": [{"name": "A"}, {"name": "B"}]}'')\<close>
    by (simp add: demo_world_def)
  show ?thesis
    using a [of 0] b c0 c2
      response_shapes [OF a [of 0] b c0, of "''https://shop.test/a''" "[]" "start None" "[]", simplified]
      response_shapes [OF a [of 2] b c2, of "''https://shop.test/c''" "[vendor ''New'']" "start None" "[]", simplified]
    by (simp add: demo_world_def demo_loads_def)
qed

subsection \<open>What a page does to the file\<close>

lemma save_results_open_fails:
  "open_w w i = Some e \<Longrightarrow> save_results w i av s = (Some e, emit (SaveCall (doc av)) s)"
  by (simp add: save_results_def Let_def)

lemma save_results_write_fails:
  "open_w w i = None \<Longrightarrow> write_fail w i = Some (e, k) \<Longrightarrow>
     save_results w i av s
       = (Some e, (emit (SaveCall (doc av)) s)\<lparr>disk := Some (take k (json_dumps w (doc av)))\<rparr>)"
  by (simp add: save_results_def Let_def)

lemma save_results_done:
  "open_w w i = None \<Longrightarrow> write_fail w i = None \<Longrightarrow>
     save_results w i av s
       = (None, emit (Write (doc av))
                  ((emit (SaveCall (doc av)) s)\<lparr>disk := Some (json_dumps w (doc av))\<rparr>))"
  by (simp add: save_results_def Let_def)






lemma untouched_not_saved: "untouched s r \<Longrightarrow> \<not> saved w s r"
  by (simp add: untouched_def saved_def)

lemma absorb_changes_len:
  "absorb av v = Inr av' \<Longrightarrow> av' \<noteq> av \<Longrightarrow> \<exists>n. py_len v = Inr n"
  by (cases v) (auto split: option.splits)

lemma taken_over_effect:
  assumes "scrape_url w i link = Inr page"
    and "py_subscript page ''markdown'' = Inr markdown"
    and "complete_check w i (CheckPrompt objective markdown) = Inr (Some content)"
    and "json_loads w content = Some vendors"
    and "absorb av vendors = Inr av'" and "py_len vendors = Inr n"
  shows "fst (process_page w objective i link (av, s)) = av' \<and>
         invoked s (process_page w objective i link (av, s)) \<and>
         (open_w w i \<noteq> None \<longrightarrow> untouched s (process_page w objective i link (av, s))) \<and>
         (open_w w i = None \<and> write_fail w i = None \<longrightarrow>
            saved w s (process_page w objective i link (av, s))) \<and>
         (open_w w i = None \<and> write_fail w i = Some (e, k) \<longrightarrow>
            writes (trace (snd (process_page w objective i link (av, s)))) = writes (trace s) \<and>
            disk (snd (process_page w objective i link (av, s)))
              = Some (take k (json_dumps w (doc av'))))"
proof (cases "open_w w i")
  case (Some e')
  then show ?thesis
    using assms
    by (simp add: process_page_def page_body_def extract_step_def parse_and_save_def Let_def
        save_results_open_fails invoked_def untouched_def split: exc.splits)
next
  case None
  show ?thesis
  proof (cases "write_fail w i")
    case n: None
    then show ?thesis
      using assms None
      by (simp add: process_page_def page_body_def extract_step_def parse_and_save_def Let_def
          save_results_done invoked_def saved_def)
  next
    case (Some ek)
    then obtain e' k' where "write_fail w i = Some (e', k')"
      by (cases ek) simp
    then show ?thesis
      using assms None
      by (simp add: process_page_def page_body_def extract_step_def parse_and_save_def Let_def
          save_results_write_fails invoked_def split: exc.splits)
  qed
qed

lemma not_taken_over_untouched:
  assumes "\<not> (\<exists>page markdown content vendors av' n.
        scrape_url w i link = Inr page \<and>
        py_subscript page ''markdown'' = Inr markdown \<and>
        complete_check w i (CheckPrompt objective markdown) = Inr (Some content) \<and>
        json_loads w content = Some vendors \<and>
        absorb av vendors = Inr av' \<and> py_len vendors = Inr n)"
  shows "untouched s (process_page w objective i link (av, s)) \<and>
         \<not> invoked s (process_page w objective i link (av, s))"
  using assms
  by (auto simp: process_page_def page_body_def extract_step_def parse_and_save_def Let_def
      untouched_def invoked_def split: sum.splits option.splits exc.splits)

lemma records_added_taken_over:
  assumes "fst (process_page w objective i link (av, s)) \<noteq> av"
  shows "\<exists>page markdown content vendors av' n.
        scrape_url w i link = Inr page \<and>
        py_subscript page ''markdown'' = Inr markdown \<and>
        complete_check w i (CheckPrompt objective markdown) = Inr (Some content) \<and>
        json_loads w content = Some vendors \<and>
        absorb av vendors = Inr av' \<and> py_len vendors = Inr n"
  using assms
  by (auto simp: process_page_vendors page_body_def Let_def extract_step_vendors
      parse_and_save_list_part dest: absorb_changes_len split: sum.splits option.splits)

text \<open>
  Claim C3, as amended. A page starts a save of the accumulated list exactly when it was
  fetched, the model answered with a text, and the text was decoded to a value that could
  be taken over and has a length, whether or not that added a record; in particular a
  page that added a record starts a save. A page that starts no save leaves the file as
  it was. A save that was started writes the document in full exactly when the file can
  be opened and the writing does not fail; when the file cannot be opened it is left as
  it was; when the writing fails after the opening, the file holds the part of the
  document that was written.
\<close>

theorem save_iff_response_taken_over:
  "(invoked s (process_page w objective i link (av, s)) =
      (\<exists>page markdown content vendors av' n.
        scrape_url w i link = Inr page \<and>
        py_subscript page ''markdown'' = Inr markdown \<and>
        complete_check w i (CheckPrompt objective markdown) = Inr (Some content) \<and>
        json_loads w content = Some vendors \<and>
        absorb av vendors = Inr av' \<and> py_len vendors = Inr n)) \<and>
   (\<not> invoked s (process_page w objective i link (av, s)) \<longrightarrow>
      untouched s (process_page w objective i link (av, s))) \<and>
   (fst (process_page w objective i link (av, s)) \<noteq> av \<longrightarrow>
      invoked s (process_page w objective i link (av, s))) \<and>
   (saved w s (process_page w objective i link (av, s)) =
      (invoked s (process_page w objective i link (av, s)) \<and>
       open_w w i = None \<and> write_fail w i = None)) \<and>
   (invoked s (process_page w objective i link (av, s)) \<and> open_w w i \<noteq> None \<longrightarrow>
      untouched s (process_page w objective i link (av, s))) \<and>
   (invoked s (process_page w objective i link (av, s)) \<and>
    open_w w i = None \<and> write_fail w i = Some (e, k) \<longrightarrow>
      writes (trace (snd (process_page w objective i link (av, s)))) = writes (trace s) \<and>
      disk (snd (process_page w objective i link (av, s)))
        = Some (take k (json_dumps w (doc (fst (process_page w objective i link (av, s)))))))"
proof -
  define r where "r = process_page w objective i link (av, s)"
  define T where "T = (\<exists>page markdown content vendors av' n.
        scrape_url w i link = Inr page \<and>
        py_subscript page ''markdown'' = Inr markdown \<and>
        complete_check w i (CheckPrompt objective markdown) = Inr (Some content) \<and>
        json_loads w content = Some vendors \<and>
        absorb av vendors = Inr av' \<and> py_len vendors = Inr n)"
  have no: "untouched s r \<and> \<not> invoked s r" if "\<not> T"
    using that not_taken_over_untouched [of w i link objective av s] by (simp add: T_def r_def)
  have yes: "invoked s r \<and>
      (open_w w i \<noteq> None \<longrightarrow> untouched s r) \<and>
      (open_w w i = None \<and> write_fail w i = None \<longrightarrow> saved w s r) \<and>
      (open_w w i = None \<and> write_fail w i = Some (e, k) \<longrightarrow>
         writes (trace (snd r)) = writes (trace s) \<and>
         disk (snd r) = Some (take k (json_dumps w (doc (fst r)))))" if T for e k
  proof -
    from that obtain page markdown content vendors av' n where
      c: "scrape_url w i link = Inr page" "py_subscript page ''markdown'' = Inr markdown"
        "complete_check w i (CheckPrompt objective markdown) = Inr (Some content)"
        "json_loads w content = Some vendors" "absorb av vendors = Inr av'" "py_len vendors = Inr n"
      by (auto simp: T_def)
    show ?thesis
      using taken_over_effect [OF c, of s e k] by (simp add: r_def)
  qed
  have inv: "invoked s r = T"
    using no yes by blast
  have added: "T" if "fst r \<noteq> av"
    using that records_added_taken_over [of w objective i link av s] by (simp add: T_def r_def)
  have torn_not_saved: "\<not> saved w s r" if "writes (trace (snd r)) = writes (trace s)"
    using that by (simp add: saved_def)
  have sv: "saved w s r = (invoked s r \<and> open_w w i = None \<and> write_fail w i = None)"
  proof (cases T)
    case False
    then show ?thesis
      using no untouched_not_saved [of s r w] by blast
  next
    case True
    show ?thesis
    proof (cases "open_w w i")
      case (Some e')
      then show ?thesis
        using yes [OF True] untouched_not_saved [of s r w] by simp
    next
      case None
      show ?thesis
      proof (cases "write_fail w i")
        case n: None
        then show ?thesis
          using yes [OF True] None by simp
      next
        case (Some ek)
        then obtain e' k' where ek: "write_fail w i = Some (e', k')"
          by (cases ek) simp
        then show ?thesis
          using yes [OF True, of e' k'] None torn_not_saved by simp
      qed
    qed
  qed
  show ?thesis
    using inv no yes added sv unfolding T_def r_def by blast
qed

text \<open>
  In the concrete run the first page adds a record and saves, and the second fails and
  starts no save. When the file cannot be opened the first page leaves it alone, and when
  the writing breaks off after five characters the file holds those five.
\<close>

theorem save_iff_response_taken_over_witness:
  \<open>fst (process_page demo_world ''find vendors'' 0 ''https://shop.test/a'' (PList [], start None))
     \<noteq> PList [] \<and>
   open_w demo_world 0 = None \<and> write_fail demo_world 0 = None \<and>
   invoked (start None)
     (process_page demo_world ''find vendors'' 0 ''https://shop.test/a'' (PList [], start None)) \<and>
   saved demo_world (start None)
     (process_page demo_world ''find vendors'' 0 ''https://shop.test/a'' (PList [], start None)) \<and>
   \<not> invoked (start None)
     (process_page demo_world ''find vendors'' 1 ''https://shop.test/b'' (PList [], start None)) \<and>
   untouched (start None)
     (process_page demo_world ''find vendors'' 1 ''https://shop.test/b'' (PList [], start None)) \<and>
   open_w (demo_world\<lparr>open_w := (\<lambda>i. Some OSError)\<rparr>) 0 \<noteq> None \<and>
   invoked (start None)
     (process_page (demo_world\<lparr>open_w := (\<lambda>i. Some OSError)\<rparr>) ''find vendors'' 0
        ''https://shop.test/a'' (PList [], start None)) \<and>
   untouched (start None)
     (process_page (demo_world\<lparr>open_w := (\<lambda>i. Some OSError)\<rparr>) ''find vendors'' 0
        ''https://shop.test/a'' (PList [], start None)) \<and>
   write_fail (demo_world\<lparr>write_fail := (\<lambda>i. Some (OSError, 5))\<rparr>) 0 = Some (OSError, 5) \<and>
   invoked (start None)
     (process_page (demo_world\<lparr>write_fail := (\<lambda>i. Some (OSError, 5))\<rparr>) ''find vendors'' 0
        ''https://shop.test/a'' (PList [], start None)) \<and>
   writes (trace (snd (process_page (demo_world\<lparr>write_fail := (\<lambda>i. Some (OSError, 5))\<rparr>)
        ''find vendors'' 0 ''https://shop.test/a'' (PList [], start None)))) = [] \<and>
   disk (snd (process_page (demo_world\<lparr>write_fail := (\<lambda>i. Some (OSError, 5))\<rparr>)
        ''find vendors'' 0 ''https://shop.test/a'' (PList [], start None))) = Some ''{"ven''\<close>
proof -
  have a: "fst (process_page demo_world ''find vendors'' 0 ''https://shop.test/a'' (PList [], start None))
      \<noteq> PList [] \<and> open_w demo_world 0 = None \<and> write_fail demo_world 0 = None"
    by (simp add: process_page_vendors page_body_def Let_def extract_step_vendors
        parse_and_save_list_part demo_world_def demo_loads_def)
  have b: "\<not> invoked (start None)
      (process_page demo_world ''find vendors'' 1 ''https://shop.test/b'' (PList [], start None))"
    by (simp add: process_page_def page_body_def demo_world_def invoked_def start_def)
  have c: "fst (process_page (demo_world\<lparr>open_w := (\<lambda>i. Some OSError)\<rparr>) ''find vendors'' 0
        ''https://shop.test/a'' (PList [], start None)) \<noteq> PList [] \<and>
      open_w (demo_world\<lparr>open_w := (\<lambda>i. Some OSError)\<rparr>) 0 \<noteq> None"
    by (simp add: process_page_vendors page_body_def Let_def extract_step_vendors
        parse_and_save_list_part demo_world_def demo_loads_def)
  have d: "fst (process_page (demo_world\<lparr>write_fail := (\<lambda>i. Some (OSError, 5))\<rparr>) ''find vendors'' 0
        ''https://shop.test/a'' (PList [], start None)) = PList [vendor ''New''] \<and>
      open_w (demo_world\<lparr>write_fail := (\<lambda>i. Some (OSError, 5))\<rparr>) 0 = None \<and>
      write_fail (demo_world\<lparr>write_fail := (\<lambda>i. Some (OSError, 5))\<rparr>) 0 = Some (OSError, 5)"
    by (simp add: process_page_vendors page_body_def Let_def extract_step_vendors
        parse_and_save_list_part demo_world_def demo_loads_def)
  have t: \<open>take 5 (json_dumps (demo_world\<lparr>write_fail := (\<lambda>i. Some (OSError, 5))\<rparr>)
        (doc (PList [vendor ''New'']))) = ''{"ven''\<close>
    by (simp add: demo_world_def demo_dumps_def doc_def vendor_def)
  have w0: "writes (trace (start None)) = []"
    by (simp add: start_def)
  note t0 = save_iff_response_taken_over [of "start None" demo_world "''find vendors''" 0
      "''https://shop.test/a''" "PList []"]
  note t1 = save_iff_response_taken_over [of "start None" demo_world "''find vendors''" 1
      "''https://shop.test/b''" "PList []"]
  note t2 = save_iff_response_taken_over [of "start None"
      "demo_world\<lparr>open_w := (\<lambda>i. Some OSError)\<rparr>"
      "''find vendors''" 0 "''https://shop.test/a''" "PList []"]
  note t3 = save_iff_response_taken_over [of "start None"
      "demo_world\<lparr>write_fail := (\<lambda>i. Some (OSError, 5))\<rparr>"
      "''find vendors''" 0 "''https://shop.test/a''" "PList []" OSError 5]
  have i0: "invoked (start None)
      (process_page demo_world ''find vendors'' 0 ''https://shop.test/a'' (PList [], start None))"
    using a t0 [THEN conjunct2, THEN conjunct2, THEN conjunct1] by simp
  have s0: "saved demo_world (start None)
      (process_page demo_world ''find vendors'' 0 ''https://shop.test/a'' (PList [], start None))"
    using a i0 t0 [THEN conjunct2, THEN conjunct2, THEN conjunct2, THEN conjunct1] by simp
  have u1: "untouched (start None)
      (process_page demo_world ''find vendors'' 1 ''https://shop.test/b'' (PList [], start None))"
    using b t1 [THEN conjunct2, THEN conjunct1] by simp
  have i2: "invoked (start None)
      (process_page (demo_world\<lparr>open_w := (\<lambda>i. Some OSError)\<rparr>) ''find vendors'' 0
        ''https://shop.test/a'' (PList [], start None))"
    using c t2 [THEN conjunct2, THEN conjunct2, THEN conjunct1] by simp
  have u2: "untouched (start None)
      (process_page (demo_world\<lparr>open_w := (\<lambda>i. Some OSError)\<rparr>) ''find vendors'' 0
        ''https://shop.test/a'' (PList [], start None))"
    using c i2 t2 [THEN conjunct2, THEN conjunct2, THEN conjunct2, THEN conjunct2, THEN conjunct1]
    by simp
  have i3: "invoked (start None)
      (process_page (demo_world\<lparr>write_fail := (\<lambda>i. Some (OSError, 5))\<rparr>) ''find vendors'' 0
        ''https://shop.test/a'' (PList [], start None))"
    using d t3 [THEN conjunct2, THEN conjunct2, THEN conjunct1] by simp
  have p3: \<open>writes (trace (snd (process_page (demo_world\<lparr>write_fail := (\<lambda>i. Some (OSError, 5))\<rparr>)
        ''find vendors'' 0 ''https://shop.test/a'' (PList [], start None)))) = [] \<and>
      disk (snd (process_page (demo_world\<lparr>write_fail := (\<lambda>i. Some (OSError, 5))\<rparr>)
        ''find vendors'' 0 ''https://shop.test/a'' (PList [], start None))) = Some ''{"ven''\<close>
    using d i3 t w0
      t3 [THEN conjunct2, THEN conjunct2, THEN conjunct2, THEN conjunct2, THEN conjunct2]
    by simp
  show ?thesis
    using a i0 s0 b u1 c i2 u2 d i3 p3 by simp
qed

text \<open>
  Claim C3 as stated fails: the response \<^verbatim>\<open>[]\<close> yields no record, and the page still saves
  and writes the file, which did not exist before.
\<close>

theorem save_on_empty_extraction_counterexample:
  \<open>response_records (json_loads (demo_world\<lparr>complete_check := (\<lambda>i p. Inr (Some ''[]''))\<rparr>) ''[]'') = [] \<and>
   fst (process_page (demo_world\<lparr>complete_check := (\<lambda>i p. Inr (Some ''[]''))\<rparr>)
          ''find vendors'' 0 ''https://shop.test/a'' (PList [], start None)) = PList [] \<and>
   save_calls (trace (snd (process_page (demo_world\<lparr>complete_check := (\<lambda>i p. Inr (Some ''[]''))\<rparr>)
          ''find vendors'' 0 ''https://shop.test/a'' (PList [], start None)))) = [doc (PList [])] \<and>
   writes (trace (snd (process_page (demo_world\<lparr>complete_check := (\<lambda>i p. Inr (Some ''[]''))\<rparr>)
          ''find vendors'' 0 ''https://shop.test/a'' (PList [], start None)))) = [doc (PList [])] \<and>
   disk (start None) = None \<and>
   disk (snd (process_page (demo_world\<lparr>complete_check := (\<lambda>i p. Inr (Some ''[]''))\<rparr>)
          ''find vendors'' 0 ''https://shop.test/a'' (PList [], start None))) = Some ''{"vendors": []}''\<close>
  by (simp add: process_page_def page_body_def extract_step_def parse_and_save_def
      save_results_def Let_def demo_world_def demo_loads_def demo_dumps_def start_def)

subsection \<open>Failing pages\<close>

lemma fetch_or_model_failure:
  assumes "scrape_url w i link = Inl e \<or>
    (\<exists>page. scrape_url w i link = Inr page \<and>
       (py_subscript page ''markdown'' = Inl e \<or>
        (\<exists>markdown. py_subscript page ''markdown'' = Inr markdown \<and>
           complete_check w i (CheckPrompt objective markdown) = Inl e)))"
  shows "fst (process_page w objective i link (av, s)) = av \<and>
      untouched s (process_page w objective i link (av, s)) \<and>
      last (trace (snd (process_page w objective i link (av, s)))) = Print (MsgPageError link e)"
  using assms
  by (auto simp: process_page_def page_body_def Let_def untouched_def)

lemma parse_failure:
  assumes "\<exists>page markdown content. scrape_url w i link = Inr page \<and>
       py_subscript page ''markdown'' = Inr markdown \<and>
       complete_check w i (CheckPrompt objective markdown) = Inr (Some content) \<and>
       json_loads w content = None"
  shows "fst (process_page w objective i link (av, s)) = av \<and>
      untouched s (process_page w objective i link (av, s)) \<and>
      last (trace (snd (process_page w objective i link (av, s)))) = Print MsgParseError"
  using assms
  by (auto simp: process_page_def page_body_def extract_step_def parse_and_save_def Let_def
      untouched_def)

lemma page_saves:
  assumes "scrape_url w i link = Inr page"
    and "py_subscript page ''markdown'' = Inr markdown"
    and "complete_check w i (CheckPrompt objective markdown) = Inr (Some content)"
    and "json_loads w content = Some vendors"
    and "absorb av vendors = Inr av'" and "py_len vendors = Inr n"
    and "open_w w i = None" and "write_fail w i = None"
  shows "fst (process_page w objective i link (av, s)) = av' \<and>
         saved w s (process_page w objective i link (av, s))"
  using taken_over_effect [OF assms(1-6), of s] assms(7,8) by simp

text \<open>
  Claim C5. When the fetch, the access to the markdown or the model call raises, the page
  ends with the error printed, the accumulated list and the file as they were; when the
  response does not parse, the same holds with the parse message. In every case the loop
  goes on with the next link, and every link of the candidate list is scraped, in order.
  With three pages of which the second cannot be fetched, while the first and the third
  are extracted and saved, the run ends with the records of the first and of the third
  page in the list, both documents written, and the file holding the last of them.
\<close>

theorem page_failure_is_contained:
  "(scrape_url w i link = Inl e \<or>
    (\<exists>page. scrape_url w i link = Inr page \<and>
       (py_subscript page ''markdown'' = Inl e \<or>
        (\<exists>markdown. py_subscript page ''markdown'' = Inr markdown \<and>
           complete_check w i (CheckPrompt objective markdown) = Inl e))) \<longrightarrow>
      fst (process_page w objective i link (av, s)) = av \<and>
      untouched s (process_page w objective i link (av, s)) \<and>
      last (trace (snd (process_page w objective i link (av, s)))) = Print (MsgPageError link e)) \<and>
   ((\<exists>page markdown content. scrape_url w i link = Inr page \<and>
       py_subscript page ''markdown'' = Inr markdown \<and>
       complete_check w i (CheckPrompt objective markdown) = Inr (Some content) \<and>
       json_loads w content = None) \<longrightarrow>
      fst (process_page w objective i link (av, s)) = av \<and>
      untouched s (process_page w objective i link (av, s)) \<and>
      last (trace (snd (process_page w objective i link (av, s)))) = Print MsgParseError) \<and>
   pages w objective i (link # links) (av, s)
     = pages w objective (Suc i) links (process_page w objective i link (av, s)) \<and>
   scrapes (trace (snd (pages w objective i (link # links) (av, s))))
     = scrapes (trace s) @ link # links \<and>
   (scrape_url w i link1 = Inr page1 \<and>
    py_subscript page1 ''markdown'' = Inr markdown1 \<and>
    complete_check w i (CheckPrompt objective markdown1) = Inr (Some content1) \<and>
    json_loads w content1 = Some vendors1 \<and>
    absorb av vendors1 = Inr av1 \<and> py_len vendors1 = Inr n1 \<and>
    open_w w i = None \<and> write_fail w i = None \<and>
    scrape_url w (Suc i) link2 = Inl e2 \<and>
    scrape_url w (Suc (Suc i)) link3 = Inr page3 \<and>
    py_subscript page3 ''markdown'' = Inr markdown3 \<and>
    complete_check w (Suc (Suc i)) (CheckPrompt objective markdown3) = Inr (Some content3) \<and>
    json_loads w content3 = Some vendors3 \<and>
    absorb av1 vendors3 = Inr av3 \<and> py_len vendors3 = Inr n3 \<and>
    open_w w (Suc (Suc i)) = None \<and> write_fail w (Suc (Suc i)) = None \<longrightarrow>
      fst (pages w objective i [link1, link2, link3] (av, s)) = av3 \<and>
      writes (trace (snd (pages w objective i [link1, link2, link3] (av, s))))
        = writes (trace s) @ [doc av1, doc av3] \<and>
      disk (snd (pages w objective i [link1, link2, link3] (av, s)))
        = Some (json_dumps w (doc av3)))"
proof (intro conjI impI)
  show "scrapes (trace (snd (pages w objective i (link # links) (av, s))))
     = scrapes (trace s) @ link # links"
    using pages_scrapes [of w objective i "link # links" "(av, s)"] by simp
next
  assume a: "scrape_url w i link1 = Inr page1 \<and>
    py_subscript page1 ''markdown'' = Inr markdown1 \<and>
    complete_check w i (CheckPrompt objective markdown1) = Inr (Some content1) \<and>
    json_loads w content1 = Some vendors1 \<and>
    absorb av vendors1 = Inr av1 \<and> py_len vendors1 = Inr n1 \<and>
    open_w w i = None \<and> write_fail w i = None \<and>
    scrape_url w (Suc i) link2 = Inl e2 \<and>
    scrape_url w (Suc (Suc i)) link3 = Inr page3 \<and>
    py_subscript page3 ''markdown'' = Inr markdown3 \<and>
    complete_check w (Suc (Suc i)) (CheckPrompt objective markdown3) = Inr (Some content3) \<and>
    json_loads w content3 = Some vendors3 \<and>
    absorb av1 vendors3 = Inr av3 \<and> py_len vendors3 = Inr n3 \<and>
    open_w w (Suc (Suc i)) = None \<and> write_fail w (Suc (Suc i)) = None"
  define p1 where "p1 = process_page w objective i link1 (av, s)"
  define p2 where "p2 = process_page w objective (Suc i) link2 (av1, snd p1)"
  define p3 where "p3 = process_page w objective (Suc (Suc i)) link3 (av1, snd p2)"
  have 1: "fst p1 = av1" "saved w s p1"
    using a page_saves [of w i link1 page1 markdown1 objective content1 vendors1 av av1 n1 s]
    by (simp_all add: p1_def)
  have 2: "fst p2 = av1" "untouched (snd p1) p2"
    using a fetch_or_model_failure [of w "Suc i" link2 e2 objective av1 "snd p1"]
    by (simp_all add: p2_def)
  have 3: "fst p3 = av3" "saved w (snd p2) p3"
    using a page_saves [of w "Suc (Suc i)" link3 page3 markdown3 objective content3 vendors3
        av1 av3 n3 "snd p2"]
    by (simp_all add: p3_def)
  have e1: "p1 = (av1, snd p1)" and e2: "p2 = (av1, snd p2)"
    using 1 2 by (simp_all add: prod_eq_iff)
  have s2: "process_page w objective (Suc i) link2 p1 = p2"
    by (metis e1 p2_def)
  have s3: "process_page w objective (Suc (Suc i)) link3 p2 = p3"
    by (metis e2 p3_def)
  have run: "pages w objective i [link1, link2, link3] (av, s) = p3"
    by (simp add: p1_def [symmetric] s2 s3)
  show "fst (pages w objective i [link1, link2, link3] (av, s)) = av3"
    unfolding run using 3 by simp
  show "writes (trace (snd (pages w objective i [link1, link2, link3] (av, s))))
        = writes (trace s) @ [doc av1, doc av3]"
    unfolding run using 1 2 3 by (simp add: saved_def untouched_def)
  show "disk (snd (pages w objective i [link1, link2, link3] (av, s)))
        = Some (json_dumps w (doc av3))"
    unfolding run using 3 by (simp add: saved_def)
qed (use fetch_or_model_failure [of w i link e objective av s]
      parse_failure [of w i link objective av s] in \<open>simp_all\<close>)

text \<open>
  The concrete run: three pages, the fetch of the second fails, and the file ends with the
  vendors of the first and of the third page.
\<close>

theorem page_failure_is_contained_witness:
  \<open>scrape_url demo_world 1 ''https://shop.test/b'' = Inl (OtherError ''fetch failed'') \<and>
   fst (process_page demo_world ''find vendors'' 1 ''https://shop.test/b'' (PList [vendor ''New''], start None))
     = PList [vendor ''New''] \<and>
   untouched (start None)
     (process_page demo_world ''find vendors'' 1 ''https://shop.test/b'' (PList [vendor ''New''], start None)) \<and>
   last (trace (snd (process_page demo_world ''find vendors'' 1 ''https://shop.test/b''
       (PList [vendor ''New''], start None))))
     = Print (MsgPageError ''https://shop.test/b'' (OtherError ''fetch failed'')) \<and>
   json_loads demo_world ''Sorry, I found no vendors.'' = None \<and>
   last (trace (snd (process_page
       (demo_world\<lparr>complete_check := (\<lambda>i p. Inr (Some ''Sorry, I found no vendors.''))\<rparr>)
       ''find vendors'' 0 ''https://shop.test/a'' (PList [vendor ''New''], start None))))
     = Print MsgParseError \<and>
   scrapes (trace (snd (pages demo_world ''find vendors'' 0
       [''https://shop.test/a'', ''https://shop.test/b'', ''https://shop.test/c''] (PList [], start None))))
     = [''https://shop.test/a'', ''https://shop.test/b'', ''https://shop.test/c''] \<and>
   fst (pages demo_world ''find vendors'' 0
       [''https://shop.test/a'', ''https://shop.test/b'', ''https://shop.test/c''] (PList [], start None))
     = PList [vendor ''New'', vendor ''A'', vendor ''B''] \<and>
   writes (trace (snd (pages demo_world ''find vendors'' 0
       [''https://shop.test/a'', ''https://shop.test/b'', ''https://shop.test/c''] (PList [], start None))))
     = [doc (PList [vendor ''New'']), doc (PList [vendor ''New'', vendor ''A'', vendor ''B''])] \<and>
   disk (snd (pages demo_world ''find vendors'' 0
       [''https://shop.test/a'', ''https://shop.test/b'', ''https://shop.test/c''] (PList [], start None)))
     = Some ''{"vendors": [{"name": "New"}, {"name": "A"}, {"name": "B"}]}''\<close>
proof -
  note t1 = page_failure_is_contained [where w = demo_world and i = 1
      and link = "''https://shop.test/b''" and e = "OtherError ''fetch failed''"
      and objective = "''find vendors''" and av = "PList [vendor ''New'']" and s = "start None"]
  note t2 = page_failure_is_contained [where
      w = "demo_world\<lparr>complete_check := (\<lambda>i p. Inr (Some ''Sorry, I found no vendors.''))\<rparr>"
      and i = 0 and link = "''https://shop.test/a''" and objective = "''find vendors''"
      and av = "PList [vendor ''New'']" and s = "start None"]
  note t3 = page_failure_is_contained [where w = demo_world and i = 0
      and link = "''https://shop.test/a''"
      and links = "[''https://shop.test/b'', ''https://shop.test/c'']"
      and objective = "''find vendors''" and av = "PList []" and s = "start None"
      and ?link1.0 = "''https://shop.test/a''" and ?link2.0 = "''https://shop.test/b''"
      and ?link3.0 = "''https://shop.test/c''"
      and ?page1.0 = "PDict [(''markdown'', PStr ''# Vendors'')]"
      and ?markdown1.0 = "PStr ''# Vendors''"
      and ?content1.0 = \<open>''[{"name": "New"}]''\<close>
      and ?vendors1.0 = "PList [vendor ''New'']"
      and ?av1.0 = "PList [vendor ''New'']" and ?n1.0 = 1
      and ?e2.0 = "OtherError ''fetch failed''"
      and ?page3.0 = "PDict [(''markdown'', PStr ''# Vendors'')]"
      and ?markdown3.0 = "PStr ''# Vendors''"
      and ?content3.0 = \<open>''{"vendors": [{"name": "A"}, {"name": "B"}]}''\<close>
      and ?vendors3.0 = "PDict [(''vendors'', PList [vendor ''A'', vendor ''B''])]"
      and ?av3.0 = "PList [vendor ''New'', vendor ''A'', vendor ''B'']" and ?n3.0 = 1]
  have a: "scrape_url demo_world 1 ''https://shop.test/b'' = Inl (OtherError ''fetch failed'')"
    by (simp add: demo_world_def)
  have a': "fst (process_page demo_world ''find vendors'' 1 ''https://shop.test/b''
        (PList [vendor ''New''], start None)) = PList [vendor ''New''] \<and>
      untouched (start None) (process_page demo_world ''find vendors'' 1 ''https://shop.test/b''
        (PList [vendor ''New''], start None)) \<and>
      last (trace (snd (process_page demo_world ''find vendors'' 1 ''https://shop.test/b''
        (PList [vendor ''New''], start None))))
        = Print (MsgPageError ''https://shop.test/b'' (OtherError ''fetch failed''))"
    using a t1 [THEN conjunct1] by simp
  have b: "\<exists>page markdown content.
      scrape_url (demo_world\<lparr>complete_check := (\<lambda>i p. Inr (Some ''Sorry, I found no vendors.''))\<rparr>)
        0 ''https://shop.test/a'' = Inr page \<and>
      py_subscript page ''markdown'' = Inr markdown \<and>
      complete_check (demo_world\<lparr>complete_check := (\<lambda>i p. Inr (Some ''Sorry, I found no vendors.''))\<rparr>)
        0 (CheckPrompt ''find vendors'' markdown) = Inr (Some content) \<and>
      json_loads (demo_world\<lparr>complete_check := (\<lambda>i p. Inr (Some ''Sorry, I found no vendors.''))\<rparr>)
        content = None"
    by (simp add: demo_world_def demo_loads_def)
  have b': "last (trace (snd (process_page
       (demo_world\<lparr>complete_check := (\<lambda>i p. Inr (Some ''Sorry, I found no vendors.''))\<rparr>)
       ''find vendors'' 0 ''https://shop.test/a'' (PList [vendor ''New''], start None))))
     = Print MsgParseError"
    using b t2 [THEN conjunct2, THEN conjunct1] by blast
  have c: "json_loads demo_world ''Sorry, I found no vendors.'' = None"
    by (simp add: demo_world_def demo_loads_def)
  have sc: "scrapes (trace (snd (pages demo_world ''find vendors'' 0
       [''https://shop.test/a'', ''https://shop.test/b'', ''https://shop.test/c''] (PList [], start None))))
     = [''https://shop.test/a'', ''https://shop.test/b'', ''https://shop.test/c'']"
    using t3 [THEN conjunct2, THEN conjunct2, THEN conjunct2, THEN conjunct1]
    by (simp add: start_def)
  have h: \<open>scrape_url demo_world 0 ''https://shop.test/a'' = Inr (PDict [(''markdown'', PStr ''# Vendors'')]) \<and>
    py_subscript (PDict [(''markdown'', PStr ''# Vendors'')]) ''markdown'' = Inr (PStr ''# Vendors'') \<and>
    complete_check demo_world 0 (CheckPrompt ''find vendors'' (PStr ''# Vendors''))
      = Inr (Some ''[{"name": "New"}]'') \<and>
    json_loads demo_world ''[{"name": "New"}]'' = Some (PList [vendor ''New'']) \<and>
    absorb (PList []) (PList [vendor ''New'']) = Inr (PList [vendor ''New'']) \<and>
    py_len (PList [vendor ''New'']) = Inr 1 \<and>
    open_w demo_world 0 = None \<and> write_fail demo_world 0 = None \<and>
    scrape_url demo_world (Suc 0) ''https://shop.test/b'' = Inl (OtherError ''fetch failed'') \<and>
    scrape_url demo_world (Suc (Suc 0)) ''https://shop.test/c''
      = Inr (PDict [(''markdown'', PStr ''# Vendors'')]) \<and>
    py_subscript (PDict [(''markdown'', PStr ''# Vendors'')]) ''markdown'' = Inr (PStr ''# Vendors'') \<and>
    complete_check demo_world (Suc (Suc 0)) (CheckPrompt ''find vendors'' (PStr ''# Vendors''))
      = Inr (Some ''{"vendors": [{"name": "A"}, {"name": "B"}]}'') \<and>
    json_loads demo_world ''{"vendors": [{"name": "A"}, {"name": "B"}]}''
      = Some (PDict [(''vendors'', PList [vendor ''A'', vendor ''B''])]) \<and>
    absorb (PList [vendor ''New'']) (PDict [(''vendors'', PList [vendor ''A'', vendor ''B''])])
      = Inr (PList [vendor ''New'', vendor ''A'', vendor ''B'']) \<and>
    py_len (PDict [(''vendors'', PList [vendor ''A'', vendor ''B''])]) = Inr 1 \<and>
    open_w demo_world (Suc (Suc 0)) = None \<and> write_fail demo_world (Suc (Suc 0)) = None\<close>
    by (simp add: demo_world_def demo_loads_def)
  have run: "fst (pages demo_world ''find vendors'' 0
       [''https://shop.test/a'', ''https://shop.test/b'', ''https://shop.test/c''] (PList [], start None))
     = PList [vendor ''New'', vendor ''A'', vendor ''B''] \<and>
   writes (trace (snd (pages demo_world ''find vendors'' 0
       [''https://shop.test/a'', ''https://shop.test/b'', ''https://shop.test/c''] (PList [], start None))))
     = writes (trace (start None))
       @ [doc (PList [vendor ''New'']), doc (PList [vendor ''New'', vendor ''A'', vendor ''B''])] \<and>
   disk (snd (pages demo_world ''find vendors'' 0
       [''https://shop.test/a'', ''https://shop.test/b'', ''https://shop.test/c''] (PList [], start None)))
     = Some (json_dumps demo_world (doc (PList [vendor ''New'', vendor ''A'', vendor ''B''])))"
    by (rule t3 [THEN conjunct2, THEN conjunct2, THEN conjunct2, THEN conjunct2, THEN mp, OF h])
  have dumps: \<open>json_dumps demo_world (doc (PList [vendor ''New'', vendor ''A'', vendor ''B'']))
      = ''{"vendors": [{"name": "New"}, {"name": "A"}, {"name": "B"}]}''\<close>
    by (simp add: demo_world_def demo_dumps_def doc_def vendor_def)
  have w0: "writes (trace (start None)) = []"
    by (simp add: start_def)
  show ?thesis
    using a a' b' c sc run dumps w0 by simp
qed

subsection \<open>Saving\<close>





lemma load_existing_is_list:
  assumes "disk s = None \<or>
     (\<exists>bytes content. disk s = Some bytes \<and> open_r w = None \<and>
        decode_text w bytes = Some content \<and>
        (json_loads w content = None \<or>
         (\<exists>kvs. json_loads w content = Some (PDict kvs) \<and>
            (map_of kvs ''vendors'' = None \<or> (\<exists>xs. map_of kvs ''vendors'' = Some (PList xs))))))"
  shows "\<exists>xs s0. load_existing w s = (Inr (PList xs), s0)"
  using assms by (auto simp: load_existing_def)




subsection \<open>The alarm\<close>

lemma timeout_at_input_ends_run:
  "input_url w = Inl TimeoutError \<Longrightarrow> main w s = (Failed_timeout, say MsgTimedOut s)"
  by (simp add: main_def main_body_def)

lemma main_timeout_only_outside_try:
  assumes "fst (main w s) = Failed_timeout"
  shows "input_url w = Inl TimeoutError \<or> input_objective w = Inl TimeoutError \<or>
         open_r w = Some TimeoutError"
proof -
  have g: "py_get v k d \<noteq> Inl TimeoutError" for v k d
    by (cases v) simp_all
  have l: "fst (load_existing w s') = Inl TimeoutError \<Longrightarrow> open_r w = Some TimeoutError" for s'
    using g by (auto simp: load_existing_def split: option.splits)
  have f: "fst (find_objective_in_top_pages w ls objective s') = Inl TimeoutError
      \<Longrightarrow> open_r w = Some TimeoutError" for ls objective s'
    using l [of s']
    by (auto simp: find_objective_in_top_pages_def split: prod.splits sum.splits)
  have r: "fst (report v s') \<noteq> Inl TimeoutError" for v s'
    by (cases v) (auto simp: report_def split: sum.splits)
  have "fst (main_body w s) = Inl TimeoutError"
    using assms by (auto simp: main_def split: prod.splits sum.splits option.splits exc.splits)
  then show ?thesis
    using f r
    by (auto simp: main_body_def split: sum.splits prod.splits option.splits list.splits)
      (metis fst_conv)+
qed

text \<open>
  Claim C9 fails on the code. \<open>TimeoutError\<close> is an \<^verbatim>\<open>Exception\<close>, so the handlers of the
  ranking and of the page loop take it: an alarm during the scrape of the second page is
  printed as that page's error, the third page is processed and the run ends as done; an
  alarm during the ranking request ends the run as one without relevant pages. The
  timeout message of \<^verbatim>\<open>main\<close> is printed in neither run.
\<close>

theorem timeout_is_absorbed:
  "fst (main (demo_world\<lparr>scrape_url := (\<lambda>i link. if i = 1 then Inl TimeoutError
             else Inr (PDict [(''markdown'', PStr ''# Vendors'')]))\<rparr>) (start None))
     = Done (PList [vendor ''New'', vendor ''A'', vendor ''B'']) \<and>
   Print (MsgPageError ''https://shop.test/b'' TimeoutError)
     \<in> set (trace (snd (main (demo_world\<lparr>scrape_url := (\<lambda>i link. if i = 1 then Inl TimeoutError
             else Inr (PDict [(''markdown'', PStr ''# Vendors'')]))\<rparr>) (start None)))) \<and>
   Print MsgTimedOut
     \<notin> set (trace (snd (main (demo_world\<lparr>scrape_url := (\<lambda>i link. if i = 1 then Inl TimeoutError
             else Inr (PDict [(''markdown'', PStr ''# Vendors'')]))\<rparr>) (start None)))) \<and>
   scrapes (trace (snd (main (demo_world\<lparr>scrape_url := (\<lambda>i link. if i = 1 then Inl TimeoutError
             else Inr (PDict [(''markdown'', PStr ''# Vendors'')]))\<rparr>) (start None))))
     = [''https://shop.test/a'', ''https://shop.test/b'', ''https://shop.test/c''] \<and>
   fst (main (demo_world\<lparr>complete_map := (\<lambda>p. Inl TimeoutError)\<rparr>) (start None)) = Failed_no_pages \<and>
   Print MsgTimedOut
     \<notin> set (trace (snd (main (demo_world\<lparr>complete_map := (\<lambda>p. Inl TimeoutError)\<rparr>) (start None))))"
  by (simp add: main_def main_body_def report_def find_relevant_page_via_map_def rank_body_def
      find_objective_in_top_pages_def load_existing_def process_page_def page_body_def
      extract_step_def parse_and_save_def save_results_def Let_def demo_world_def demo_loads_def
      start_def vendor_def)

end
